theory Spec2Isabelle
  imports Main
begin

section \<open>The service template \<open>terraform/templates/service/src/app.py\<close>\<close>

text \<open>
  The module creates one FastAPI application and registers two coroutine handlers on it:
  \<^verbatim>\<open>
  app = FastAPI(title="SERVICE_NAME")

  @app.get("/")
  async def root():
      return {
          "service": "SERVICE_NAME",
          "status": "running",
          "environment": os.getenv("ENVIRONMENT", "production")
      }

  @app.get("/health")
  async def health():
      return {"status": "healthy"}
  \<close>
  Neither handler takes a parameter. The only thing a handler reads besides its own
  literals is the process environment, through \<open>os.getenv\<close>.
\<close>

subsection \<open>Data\<close>

text \<open>
  A Python \<open>str\<close> is kept as the bytes it has under UTF-8 with the error handler
  \<open>surrogateescape\<close>. That is the encoding with which \<open>os.environ\<close> decodes the values of
  the C environment (the file system encoding, taken to be UTF-8), and it is one-to-one
  between the byte strings of the environment and the strs \<open>os.environ\<close> holds: a byte that
  is not part of a well-formed UTF-8 sequence stands for one lone surrogate in the str. The
  literals of \<open>app.py\<close> are ASCII, so they are their own bytes.

  A handler returns a Python dict whose keys and values are all \<open>str\<close>. Python dicts keep
  insertion order, so the dict is an association list in the order of the literal; a
  field is read with \<open>map_of\<close>.
\<close>

type_synonym py_dict = "(string \<times> string) list"

text \<open>
  The exceptions that occur below the handlers and in the response layer: \<open>KeyError\<close> from
  \<open>os.environ[key]\<close>, \<open>UnicodeEncodeError\<close> from \<open>str.encode\<close>.
\<close>

datatype py_exception = KeyError string | UnicodeEncodeError

text \<open>
  The functions a route can refer to: the two coroutine functions of the module, and the
  four functions that \<open>FastAPI.setup\<close> defines for the documentation of the application.
\<close>

datatype endpoint = Root | Health | Openapi | SwaggerUiHtml | SwaggerUiRedirect | RedocHtml

text \<open>
  What registering a route records: the path and the function. Every route of this
  application accepts the method GET (\<open>@app.get\<close> registers GET; the framework's own routes
  are registered for GET and HEAD), and only GET requests are modelled.
\<close>

record route =
  route_path :: string
  route_endpoint :: endpoint

text \<open>
  The state of the running process that the module can see: \<open>os.environ\<close>, and the
  module-level \<open>app\<close> object (its title and its routes, in the order of registration).
\<close>

record process =
  environ :: "string \<rightharpoonup> string"
  app_title :: string
  app_routes :: "route list"

subsection \<open>Reading the environment\<close>

text \<open>
  \<open>os.environ[key]\<close> raises \<open>KeyError\<close> for a variable that is not set.
  \<open>os.getenv(key, default)\<close> is \<open>os.environ.get(key, default)\<close>: it tries
  \<open>os.environ[key]\<close> and returns \<open>default\<close> when that raises \<open>KeyError\<close>; any other
  exception passes through. Both only read the process state; it is returned as it was.
\<close>

definition environ_getitem :: "string \<Rightarrow> process \<Rightarrow> (py_exception + string) \<times> process" where
  "environ_getitem key p =
     (case environ p key of
        None \<Rightarrow> (Inl (KeyError key), p)
      | Some v \<Rightarrow> (Inr v, p))"

definition os_getenv :: "string \<Rightarrow> string \<Rightarrow> process \<Rightarrow> (py_exception + string) \<times> process" where
  "os_getenv key dflt p =
     (case environ_getitem key p of
        (Inl (KeyError k), p') \<Rightarrow> (Inr dflt, p')
      | (Inl e, p') \<Rightarrow> (Inl e, p')
      | (Inr v, p') \<Rightarrow> (Inr v, p'))"

subsection \<open>The handlers\<close>

text \<open>
  A handler takes the process state at the time it is called and returns the dict it
  built, or the exception that escaped it, together with the process state it leaves.
  In \<open>root\<close> the dict literal is evaluated left to right; the call of \<open>os.getenv\<close> is
  its only subexpression that is not a literal, and an exception of that call would
  leave the handler.
\<close>

definition root :: "process \<Rightarrow> (py_exception + py_dict) \<times> process" where
  "root p =
     (case os_getenv ''ENVIRONMENT'' ''production'' p of
        (Inl e, p') \<Rightarrow> (Inl e, p')
      | (Inr env, p') \<Rightarrow>
          (Inr [(''service'', ''SERVICE_NAME''),
                (''status'', ''running''),
                (''environment'', env)], p'))"

definition health :: "process \<Rightarrow> (py_exception + py_dict) \<times> process" where
  "health p = (Inr [(''status'', ''healthy'')], p)"

text \<open>Reading one field of the dict a handler returned (\<open>None\<close> if it raised).\<close>

definition response_field :: "string \<Rightarrow> py_exception + py_dict \<Rightarrow> string option" where
  "response_field k r = (case r of Inl e \<Rightarrow> None | Inr d \<Rightarrow> map_of d k)"

subsection \<open>Encoding a str as UTF-8\<close>

text \<open>
  \<open>utf8_scan\<close> reads bytes as the UTF-8 decoder of Python does (the well-formed byte
  sequences of the Unicode standard: no overlong form, no encoded surrogate, nothing above
  U+10FFFF). Its state is the number of continuation bytes still due and the bounds for
  the next one.
\<close>

fun utf8_scan :: "nat \<times> nat \<times> nat \<Rightarrow> nat list \<Rightarrow> bool" where
  "utf8_scan (n, lo, hi) [] = (n = 0)"
| "utf8_scan (n, lo, hi) (b # bs) =
     (if n = 0 then
        (if b < 0x80 then utf8_scan (0, 0x80, 0xBF) bs
         else if 0xC2 \<le> b \<and> b \<le> 0xDF then utf8_scan (1, 0x80, 0xBF) bs
         else if b = 0xE0 then utf8_scan (2, 0xA0, 0xBF) bs
         else if b = 0xED then utf8_scan (2, 0x80, 0x9F) bs
         else if 0xE1 \<le> b \<and> b \<le> 0xEF then utf8_scan (2, 0x80, 0xBF) bs
         else if b = 0xF0 then utf8_scan (3, 0x90, 0xBF) bs
         else if b = 0xF4 then utf8_scan (3, 0x80, 0x8F) bs
         else if 0xF1 \<le> b \<and> b \<le> 0xF3 then utf8_scan (3, 0x80, 0xBF) bs
         else False)
      else (lo \<le> b \<and> b \<le> hi \<and> utf8_scan (n - 1, 0x80, 0xBF) bs))"

definition well_formed_utf8 :: "string \<Rightarrow> bool" where
  "well_formed_utf8 s = utf8_scan (0, 0x80, 0xBF) (map of_char s)"

text \<open>
  \<open>s.encode("utf-8")\<close>: a str without a lone surrogate, that is one whose bytes are
  well-formed UTF-8, encodes to those bytes; on a lone surrogate the codec raises
  \<open>UnicodeEncodeError\<close>.
\<close>

definition encode_utf8 :: "string \<Rightarrow> py_exception + string" where
  "encode_utf8 s = (if well_formed_utf8 s then Inr s else Inl UnicodeEncodeError)"

subsection \<open>The module body\<close>

text \<open>
  \<open>FastAPI(title=...)\<close> creates the application with its title. Framework code, not part of
  \<open>app.py\<close>: with every other argument at its default, the constructor calls \<open>setup\<close>, which
  registers the routes \<open>/openapi.json\<close>, \<open>/docs\<close>, \<open>/docs/oauth2-redirect\<close> and \<open>/redoc\<close>, in
  this order. Each decorator \<open>@app.get(path)\<close> then adds one route for the method GET and
  leaves the decorated function as it is. Importing the module runs these three statements
  in order; none of them reads or writes \<open>os.environ\<close>.
\<close>

definition FastAPI :: "string \<Rightarrow> process \<Rightarrow> process" where
  "FastAPI t p =
     p\<lparr>app_title := t,
       app_routes :=
         [\<lparr>route_path = ''/openapi.json'', route_endpoint = Openapi\<rparr>,
          \<lparr>route_path = ''/docs'', route_endpoint = SwaggerUiHtml\<rparr>,
          \<lparr>route_path = ''/docs/oauth2-redirect'', route_endpoint = SwaggerUiRedirect\<rparr>,
          \<lparr>route_path = ''/redoc'', route_endpoint = RedocHtml\<rparr>]\<rparr>"

definition app_get :: "string \<Rightarrow> endpoint \<Rightarrow> process \<Rightarrow> process" where
  "app_get path ep p =
     p\<lparr>app_routes := app_routes p @ [\<lparr>route_path = path, route_endpoint = ep\<rparr>]\<rparr>"

definition module_body :: "process \<Rightarrow> process" where
  "module_body p = app_get ''/health'' Health (app_get ''/'' Root (FastAPI ''SERVICE_NAME'' p))"

text \<open>The process right after the import, started with the environment \<open>e\<close>.\<close>

definition startup :: "(string \<rightharpoonup> string) \<Rightarrow> process" where
  "startup e = module_body \<lparr>environ = e, app_title = [], app_routes = []\<rparr>"

subsection \<open>Responses\<close>

text \<open>
  Everything from here to the end of the definitions is framework code (FastAPI on
  Starlette), which \<open>app.py\<close> imports and which is not part of the source. It is written
  after the framework's own functions, named at each definition, for a GET request to an
  application without a root path.

  A response as the client sees it: status code, the content-type header if there is
  one, and the body. The body of a JSON response is given by the dict it renders, that
  of a text response by its text; a document the framework generates is named by the
  function that generates it.
\<close>

datatype body = Json py_dict | Text string | Document endpoint | Empty

record http_response =
  status_code :: nat
  content_type :: "string option"
  resp_body :: body

text \<open>
  \<open>JSONResponse.render\<close> is \<open>json.dumps(content, ensure_ascii=False, ...).encode("utf-8")\<close>.
  With \<open>ensure_ascii=False\<close> the characters of every key and value go into the text as
  they are (the escapes \<open>json.dumps\<close> adds are ASCII), so the encoding succeeds when every
  key and value can be encoded.
\<close>

definition render :: "py_dict \<Rightarrow> py_exception + body" where
  "render d =
     (if list_all (\<lambda>(k, v). well_formed_utf8 k \<and> well_formed_utf8 v) d
      then Inr (Json d) else Inl UnicodeEncodeError)"

text \<open>
  \<open>JSONResponse(content, status_code)\<close>: the constructor renders the body, so an exception
  of \<open>render\<close> leaves the constructor; the media type of the class is \<open>application/json\<close>.
\<close>

definition JSONResponse :: "py_dict \<Rightarrow> nat \<Rightarrow> py_exception + http_response" where
  "JSONResponse d status =
     (case render d of
        Inl e \<Rightarrow> Inl e
      | Inr b \<Rightarrow>
          Inr \<lparr>status_code = status, content_type = Some ''application/json'', resp_body = b\<rparr>)"

text \<open>
  \<open>HTMLResponse\<close> with one of the framework's documents, status 200; to a media type
  \<open>text/...\<close> the response adds its charset.
\<close>

definition HTMLResponse :: "endpoint \<Rightarrow> http_response" where
  "HTMLResponse ep =
     \<lparr>status_code = 200, content_type = Some ''text/html; charset=utf-8'',
      resp_body = Document ep\<rparr>"

text \<open>
  \<open>RedirectResponse(url)\<close>: status 307, an empty body and no media type (its \<open>location\<close>
  header is not part of the record).
\<close>

definition RedirectResponse :: http_response where
  "RedirectResponse = \<lparr>status_code = 307, content_type = None, resp_body = Empty\<rparr>"

text \<open>
  \<open>ServerErrorMiddleware.error_response\<close>, the answer to an exception that no handler took:
  \<open>PlainTextResponse("Internal Server Error", status_code=500)\<close>.
\<close>

definition error_response :: http_response where
  "error_response =
     \<lparr>status_code = 500, content_type = Some ''text/plain; charset=utf-8'',
      resp_body = Text ''Internal Server Error''\<rparr>"

text \<open>
  \<open>Router.not_found\<close> raises \<open>HTTPException(status_code=404)\<close>, whose detail is the phrase
  of the status, and FastAPI's \<open>http_exception_handler\<close> answers it with
  \<open>JSONResponse({"detail": exc.detail}, status_code=exc.status_code)\<close>.
\<close>

definition not_found :: "py_exception + http_response" where
  "not_found = JSONResponse [(''detail'', ''Not Found'')] 404"

subsection \<open>Serving a GET request\<close>

text \<open>
  \<open>Route.matches\<close>: the path of a route without parameters is compiled to the regular
  expression \<open>^\<close> path \<open>$\<close> and tried with \<open>re.match\<close>. In Python \<open>$\<close> matches at the end of
  the string and also before a newline that ends the string.
\<close>

definition route_matches :: "route \<Rightarrow> string \<Rightarrow> bool" where
  "route_matches r path = (path = route_path r \<or> path = route_path r @ [CHR 0x0A])"

text \<open>The first route, in the order of registration, that matches.\<close>

definition find_route :: "route list \<Rightarrow> string \<Rightarrow> endpoint option" where
  "find_route rs path = map_option route_endpoint (List.find (\<lambda>r. route_matches r path) rs)"

text \<open>
  The path \<open>Router.app\<close> tries when no route matches: \<open>path.rstrip("/")\<close> for a path that
  ends with a slash, and the path with a slash added otherwise.
\<close>

definition redirect_path :: "string \<Rightarrow> string" where
  "redirect_path path =
     (if path \<noteq> [] \<and> last path = CHR ''/''
      then rev (dropWhile (\<lambda>c. c = CHR ''/'') (rev path))
      else path @ ''/'')"

text \<open>
  The request handler FastAPI builds for a route added with \<open>@app.get(path)\<close> and no
  further argument (\<open>get_request_handler\<close>): it calls the function and, as the result is
  not a \<open>Response\<close>, passes it to the default response class \<open>JSONResponse\<close>, with the
  status code 200 of a route that names none. An exception of the function or of the
  constructor leaves the handler.
\<close>

definition api_route ::
  "(process \<Rightarrow> (py_exception + py_dict) \<times> process) \<Rightarrow> process
   \<Rightarrow> (py_exception + http_response) \<times> process" where
  "api_route f p =
     (case f p of
        (Inl e, p') \<Rightarrow> (Inl e, p')
      | (Inr d, p') \<Rightarrow> (JSONResponse d 200, p'))"

text \<open>
  Calling the function of a route. The functions of \<open>FastAPI.setup\<close> return
  \<open>JSONResponse(self.openapi())\<close> and three HTML pages.
\<close>

definition call_endpoint :: "endpoint \<Rightarrow> process \<Rightarrow> (py_exception + http_response) \<times> process" where
  "call_endpoint ep p =
     (case ep of
        Root \<Rightarrow> api_route root p
      | Health \<Rightarrow> api_route health p
      | Openapi \<Rightarrow>
          (Inr \<lparr>status_code = 200, content_type = Some ''application/json'',
                resp_body = Document Openapi\<rparr>, p)
      | SwaggerUiHtml \<Rightarrow> (Inr (HTMLResponse SwaggerUiHtml), p)
      | SwaggerUiRedirect \<Rightarrow> (Inr (HTMLResponse SwaggerUiRedirect), p)
      | RedocHtml \<Rightarrow> (Inr (HTMLResponse RedocHtml), p))"

text \<open>
  \<open>Router.app\<close> for a GET request: the first matching route handles the request; if none
  matches and the path is not \<open>/\<close>, a match of the path with its trailing slash changed is
  answered with a redirect; everything else is not found.
\<close>

definition router_app :: "process \<Rightarrow> string \<Rightarrow> (py_exception + http_response) \<times> process" where
  "router_app p path =
     (case find_route (app_routes p) path of
        Some ep \<Rightarrow> call_endpoint ep p
      | None \<Rightarrow>
          if path \<noteq> ''/'' \<and> find_route (app_routes p) (redirect_path path) \<noteq> None
          then (Inr RedirectResponse, p)
          else (not_found, p))"

text \<open>
  The application around the router: \<open>ServerErrorMiddleware\<close> answers an exception that
  reaches it with \<open>error_response\<close>.
\<close>

definition handle_get :: "process \<Rightarrow> string \<Rightarrow> http_response \<times> process" where
  "handle_get p path =
     (case router_app p path of
        (Inl e, p') \<Rightarrow> (error_response, p')
      | (Inr r, p') \<Rightarrow> (r, p'))"

section \<open>Helper facts\<close>

lemma os_getenv_unset:
  "environ p key = None \<Longrightarrow> os_getenv key dflt p = (Inr dflt, p)"
  by (simp add: os_getenv_def environ_getitem_def)

lemma os_getenv_set:
  "environ p key = Some v \<Longrightarrow> os_getenv key dflt p = (Inr v, p)"
  by (simp add: os_getenv_def environ_getitem_def)

lemma os_getenv_value:
  "os_getenv key dflt p = (Inr (case environ p key of None \<Rightarrow> dflt | Some v \<Rightarrow> v), p)"
  by (cases "environ p key") (simp_all add: os_getenv_unset os_getenv_set)

lemma root_value:
  "root p =
     (Inr [(''service'', ''SERVICE_NAME''),
           (''status'', ''running''),
           (''environment'',
              case environ p ''ENVIRONMENT'' of None \<Rightarrow> ''production'' | Some v \<Rightarrow> v)], p)"
  by (simp add: root_def os_getenv_value)

lemma app_routes_startup:
  "app_routes (startup e) =
     [\<lparr>route_path = ''/openapi.json'', route_endpoint = Openapi\<rparr>,
      \<lparr>route_path = ''/docs'', route_endpoint = SwaggerUiHtml\<rparr>,
      \<lparr>route_path = ''/docs/oauth2-redirect'', route_endpoint = SwaggerUiRedirect\<rparr>,
      \<lparr>route_path = ''/redoc'', route_endpoint = RedocHtml\<rparr>,
      \<lparr>route_path = ''/'', route_endpoint = Root\<rparr>,
      \<lparr>route_path = ''/health'', route_endpoint = Health\<rparr>]"
  by (simp add: startup_def module_body_def app_get_def FastAPI_def)

lemma environ_startup: "environ (startup e) = e"
  by (simp add: startup_def module_body_def app_get_def FastAPI_def)



lemma find_route_docs:
  "find_route (app_routes (startup e0)) ''/docs'' = Some SwaggerUiHtml"
  by (simp add: find_route_def route_matches_def app_routes_startup)

lemma find_route_unregistered:
  assumes "list_all (\<lambda>rp. path \<noteq> rp \<and> path \<noteq> rp @ [CHR 0x0A])
             [''/openapi.json'', ''/docs'', ''/docs/oauth2-redirect'', ''/redoc'', ''/'', ''/health'']"
  shows "find_route (app_routes (startup e0)) path = None"
  using assms by (simp add: find_route_def route_matches_def app_routes_startup)

lemma well_formed_literals:
  "well_formed_utf8 ''service''" "well_formed_utf8 ''SERVICE_NAME''"
  "well_formed_utf8 ''status''" "well_formed_utf8 ''running''"
  "well_formed_utf8 ''environment''" "well_formed_utf8 ''production''"
  "well_formed_utf8 ''healthy''" "well_formed_utf8 ''detail''"
  "well_formed_utf8 ''Not Found''"
  by (simp_all add: well_formed_utf8_def)

lemma not_found_value:
  "not_found =
     Inr \<lparr>status_code = 404, content_type = Some ''application/json'',
          resp_body = Json [(''detail'', ''Not Found'')]\<rparr>"
  by (simp add: not_found_def JSONResponse_def render_def well_formed_literals)



section \<open>Properties of the handlers and of the responses\<close>

text \<open>
  C1. When the process environment has no variable named \<open>ENVIRONMENT\<close>, the dict
  returned by the handler of \<open>GET /\<close> has the string \<open>production\<close> in its field
  \<open>environment\<close>.
\<close>

theorem root_environment_unset:
  assumes "environ p ''ENVIRONMENT'' = None"
  shows "response_field ''environment'' (fst (root p)) = Some ''production''"
  using assms by (simp add: root_value response_field_def)

theorem root_environment_unset_witness:
  "environ (startup Map.empty) ''ENVIRONMENT'' = None
   \<and> response_field ''environment'' (fst (root (startup Map.empty))) = Some ''production''"
proof -
  have unset: "environ (startup Map.empty) ''ENVIRONMENT'' = None"
    by (simp add: environ_startup)
  from unset root_environment_unset [OF unset] show ?thesis
    by (rule conjI)
qed

text \<open>
  C2. When the process environment maps \<open>ENVIRONMENT\<close> to \<open>staging\<close>, the dict returned
  by the handler of \<open>GET /\<close> has \<open>staging\<close> in its field \<open>environment\<close>.
\<close>

theorem root_environment_staging:
  assumes "environ p ''ENVIRONMENT'' = Some ''staging''"
  shows "response_field ''environment'' (fst (root p)) = Some ''staging''"
  using assms by (simp add: root_value response_field_def)

theorem root_environment_staging_witness:
  "environ (startup [''ENVIRONMENT'' \<mapsto> ''staging'']) ''ENVIRONMENT'' = Some ''staging''
   \<and> response_field ''environment'' (fst (root (startup [''ENVIRONMENT'' \<mapsto> ''staging''])))
       = Some ''staging''"
proof -
  have staging: "environ (startup [''ENVIRONMENT'' \<mapsto> ''staging'']) ''ENVIRONMENT'' = Some ''staging''"
    by (simp add: environ_startup)
  from staging root_environment_staging [OF staging] show ?thesis
    by (rule conjI)
qed

text \<open>
  C3. Whatever the process state is, and so whatever \<open>ENVIRONMENT\<close> is or is not set to,
  the handler of \<open>GET /health\<close> returns exactly the dict with the one field \<open>status\<close>
  holding \<open>healthy\<close>.
\<close>

theorem health_body_exact:
  "fst (health p) = Inr [(''status'', ''healthy'')]"
  by (simp add: health_def)





text \<open>
  C6, as stated, fails: \<open>/docs\<close> is a path other than \<open>/\<close> and \<open>/health\<close>, and the request
  \<open>GET /docs\<close> is answered with status 200, by the documentation page that the framework
  registers on every application built with the default arguments.
\<close>

theorem get_docs_is_200:
  "status_code (fst (handle_get (startup Map.empty) ''/docs'')) = 200"
  by (simp add: handle_get_def router_app_def find_route_docs call_endpoint_def
      HTMLResponse_def)

text \<open>
  C6, amended. A GET request to a path that matches no route of the application, neither
  \<open>/\<close> and \<open>/health\<close> nor the framework's own \<open>/openapi.json\<close>, \<open>/docs\<close>,
  \<open>/docs/oauth2-redirect\<close> and \<open>/redoc\<close> (a route also matches its path followed by one
  newline), is not answered with status 200. The answer is the framework's not-found
  response, status 404 with the JSON body \<open>{"detail": "Not Found"}\<close>, unless the path
  with its trailing slash changed matches a route: then it is a redirect with status 307.
\<close>

theorem unregistered_path_not_200:
  assumes "list_all (\<lambda>rp. path \<noteq> rp \<and> path \<noteq> rp @ [CHR 0x0A])
             [''/openapi.json'', ''/docs'', ''/docs/oauth2-redirect'', ''/redoc'', ''/'', ''/health'']"
  shows "status_code (fst (handle_get ((startup e0)\<lparr>environ := e\<rparr>) path)) \<noteq> 200
       \<and> fst (handle_get ((startup e0)\<lparr>environ := e\<rparr>) path) =
           (if list_all (\<lambda>rp. redirect_path path \<noteq> rp \<and> redirect_path path \<noteq> rp @ [CHR 0x0A])
                 [''/openapi.json'', ''/docs'', ''/docs/oauth2-redirect'', ''/redoc'', ''/'', ''/health'']
            then \<lparr>status_code = 404, content_type = Some ''application/json'',
                  resp_body = Json [(''detail'', ''Not Found'')]\<rparr>
            else \<lparr>status_code = 307, content_type = None, resp_body = Empty\<rparr>)"
proof -
  let ?P = "(startup e0)\<lparr>environ := e\<rparr>"
  have routes: "app_routes ?P = app_routes (startup e0)"
    by simp
  have unmatched: "find_route (app_routes ?P) path = None"
    using assms by (simp only: routes find_route_unregistered)
  have not_root: "path \<noteq> ''/''"
    using assms by simp
  have redirect: "find_route (app_routes ?P) (redirect_path path) = None
      \<longleftrightarrow> list_all (\<lambda>rp. redirect_path path \<noteq> rp \<and> redirect_path path \<noteq> rp @ [CHR 0x0A])
            [''/openapi.json'', ''/docs'', ''/docs/oauth2-redirect'', ''/redoc'', ''/'', ''/health'']"
    unfolding routes
    by (simp add: find_route_def route_matches_def app_routes_startup)
  have response: "fst (handle_get ?P path) =
      (if find_route (app_routes ?P) (redirect_path path) = None
       then \<lparr>status_code = 404, content_type = Some ''application/json'',
             resp_body = Json [(''detail'', ''Not Found'')]\<rparr>
       else RedirectResponse)"
    using unmatched not_root
    by (simp add: handle_get_def router_app_def not_found_value)
  show ?thesis
    unfolding response redirect
    by (simp add: RedirectResponse_def)
qed

theorem unregistered_path_not_200_witness:
  "fst (handle_get ((startup Map.empty)\<lparr>environ := Map.empty\<rparr>) ''/metrics'') =
     \<lparr>status_code = 404, content_type = Some ''application/json'',
      resp_body = Json [(''detail'', ''Not Found'')]\<rparr>
   \<and> fst (handle_get ((startup Map.empty)\<lparr>environ := Map.empty\<rparr>) ''/health/'') =
     \<lparr>status_code = 307, content_type = None, resp_body = Empty\<rparr>"
proof -
  have metrics: "list_all (\<lambda>rp. ''/metrics'' \<noteq> rp \<and> ''/metrics'' \<noteq> rp @ [CHR 0x0A])
      [''/openapi.json'', ''/docs'', ''/docs/oauth2-redirect'', ''/redoc'', ''/'', ''/health'']"
    by simp
  have slash: "list_all (\<lambda>rp. ''/health/'' \<noteq> rp \<and> ''/health/'' \<noteq> rp @ [CHR 0x0A])
      [''/openapi.json'', ''/docs'', ''/docs/oauth2-redirect'', ''/redoc'', ''/'', ''/health'']"
    by simp
  have "fst (handle_get ((startup Map.empty)\<lparr>environ := Map.empty\<rparr>) ''/metrics'') =
     \<lparr>status_code = 404, content_type = Some ''application/json'',
      resp_body = Json [(''detail'', ''Not Found'')]\<rparr>"
    using unregistered_path_not_200 [OF metrics, of Map.empty Map.empty]
    by (simp add: redirect_path_def)
  moreover have "fst (handle_get ((startup Map.empty)\<lparr>environ := Map.empty\<rparr>) ''/health/'') =
     \<lparr>status_code = 307, content_type = None, resp_body = Empty\<rparr>"
    using unregistered_path_not_200 [OF slash, of Map.empty Map.empty]
    by (simp add: redirect_path_def)
  ultimately show ?thesis
    by (rule conjI)
qed

text \<open>
  C7. Neither handler has a side effect: the process state after the handler of \<open>GET /\<close>
  and after the handler of \<open>GET /health\<close> is the process state before it, the environment
  and the application object alike.
\<close>

theorem handlers_leave_process_unchanged:
  "snd (root p) = p \<and> snd (health p) = p"
  by (simp add: root_value health_def)

text \<open>
  C8. Both handlers are total: in every process state each of them returns a dict, and no
  exception leaves either of them.
\<close>

theorem handlers_return_normally:
  "(\<exists>d. fst (root p) = Inr d) \<and> (\<exists>d. fst (health p) = Inr d)"
proof (rule conjI)
  obtain v where "os_getenv ''ENVIRONMENT'' ''production'' p = (Inr v, p)"
    using os_getenv_value by blast
  then show "\<exists>d. fst (root p) = Inr d"
    by (simp add: root_def)
next
  show "\<exists>d. fst (health p) = Inr d"
    by (simp add: health_def)
qed

text \<open>
  C9. When the process environment maps \<open>ENVIRONMENT\<close> to the empty string, the field
  \<open>environment\<close> of the dict returned by the handler of \<open>GET /\<close> is the empty string: the
  default \<open>production\<close> is for a variable that is not set, not for one set to an empty value.
\<close>

theorem root_environment_empty:
  assumes "environ p ''ENVIRONMENT'' = Some ''''"
  shows "response_field ''environment'' (fst (root p)) = Some ''''"
  using assms by (simp add: root_value response_field_def)

theorem root_environment_empty_witness:
  "environ (startup [''ENVIRONMENT'' \<mapsto> '''']) ''ENVIRONMENT'' = Some ''''
   \<and> response_field ''environment'' (fst (root (startup [''ENVIRONMENT'' \<mapsto> '''']))) = Some ''''"
proof -
  have empty: "environ (startup [''ENVIRONMENT'' \<mapsto> '''']) ''ENVIRONMENT'' = Some ''''"
    by (simp add: environ_startup)
  from empty root_environment_empty [OF empty] show ?thesis
    by (rule conjI)
qed

text \<open>
  C10. Both handlers are deterministic. Two calls of the handler of \<open>GET /\<close> in process
  states with the same environment return the same dict, whatever else differs between
  the two states; two calls of the handler of \<open>GET /health\<close> return the same dict in any
  two process states.
\<close>

theorem handlers_deterministic:
  assumes "environ p = environ q"
  shows "fst (root p) = fst (root q) \<and> fst (health p') = fst (health q')"
  using assms by (simp add: root_value health_def)

theorem handlers_deterministic_witness:
  "environ (startup [''ENVIRONMENT'' \<mapsto> ''staging''])
     = environ \<lparr>environ = [''ENVIRONMENT'' \<mapsto> ''staging''], app_title = ''other'', app_routes = []\<rparr>
   \<and> fst (root (startup [''ENVIRONMENT'' \<mapsto> ''staging'']))
     = fst (root \<lparr>environ = [''ENVIRONMENT'' \<mapsto> ''staging''], app_title = ''other'', app_routes = []\<rparr>)
   \<and> fst (health (startup Map.empty)) = fst (health (startup [''ENVIRONMENT'' \<mapsto> ''staging'']))"
proof -
  let ?p = "startup [''ENVIRONMENT'' \<mapsto> ''staging'']"
  let ?q = "\<lparr>environ = [''ENVIRONMENT'' \<mapsto> ''staging''], app_title = ''other'', app_routes = []\<rparr>"
  have same: "environ ?p = environ ?q"
    by (simp add: environ_startup)
  from same handlers_deterministic [OF same, of "startup Map.empty" ?p] show ?thesis
    by (rule conjI)
qed

end
